theory Spec2Isabelle
  imports Main
begin

section \<open>JavaScript values and the coercions the code relies on\<close>

text \<open>
  The repository is a three-layer Express/Prisma web API written in JavaScript. Its
  functions pass dynamically typed values around: a request body is whatever the JSON
  parser produced, a service returns rows, \<open>undefined\<close> or a sentinel string. The
  embedding therefore has one type of JavaScript values; an object is the list of its
  own properties, each key once. Numbers are IEEE doubles in
  the language; their type is left as the parameter \<open>'n\<close>, and the operations on
  them that depend on the double format are the fields of a runtime record that
  every function takes as its first argument.
\<close>

datatype js_error = TypeError string | JsError string

fun message :: "js_error \<Rightarrow> string" where
  "message (TypeError m) = m"
| "message (JsError m) = m"

datatype 'n jsval =
    JUndefined
  | JNull
  | JBool bool
  | JNumber 'n
  | JString string
  | JArray "'n jsval list"
  | JObject "(string \<times> 'n jsval) list"

text \<open>
  \<open>NaN\<close> is the not-a-number value, \<open>fromInt k\<close> the Number value of the integer
  literal \<open>k\<close>, \<open>NumberToString\<close> and \<open>StringToNumber\<close> are the abstract operations
  of the language standard with these names, and \<open>NumberToBoolean n\<close> is false for
  the zeros and for \<open>NaN\<close>.
\<close>

record 'n js_runtime =
  NaN :: 'n
  fromInt :: "int \<Rightarrow> 'n"
  NumberToString :: "'n \<Rightarrow> string"
  StringToNumber :: "string \<Rightarrow> 'n"
  NumberToBoolean :: "'n \<Rightarrow> bool"

text \<open>Exceptions are the left injection of a sum; \<open>bind_err\<close> sequences two steps.\<close>

definition bind_err :: "js_error + 'a \<Rightarrow> ('a \<Rightarrow> js_error + 'b) \<Rightarrow> js_error + 'b" where
  "bind_err m f = (case m of Inl e \<Rightarrow> Inl e | Inr x \<Rightarrow> f x)"

text \<open>
  \<open>Array.prototype.join\<close> with the default separator, over the element strings
  (the leftmost exception wins).
\<close>

fun join :: "(js_error + string) list \<Rightarrow> js_error + string" where
  "join [] = Inr []"
| "join [r] = r"
| "join (r # rs) =
     bind_err r (\<lambda>s. bind_err (join rs) (\<lambda>t. Inr (s @ '','' @ t)))"

text \<open>
  \<open>ToString\<close> is the conversion behind \<open>x + ''\<close> and behind a template literal.
  For a value that came out of a JSON parser an object is a plain object or an array:
  an array is joined, a plain object prints as \<open>[object Object]\<close>, unless it has an
  own property named \<open>toString\<close>, which shadows the inherited method with a value
  that cannot be called, and the conversion throws.
\<close>

fun ToString :: "'n js_runtime \<Rightarrow> 'n jsval \<Rightarrow> js_error + string" where
  "ToString rt JUndefined = Inr ''undefined''"
| "ToString rt JNull = Inr ''null''"
| "ToString rt (JBool b) = Inr (if b then ''true'' else ''false'')"
| "ToString rt (JNumber n) = Inr (NumberToString rt n)"
| "ToString rt (JString s) = Inr s"
| "ToString rt (JArray xs) =
     join (map (\<lambda>x. case x of JUndefined \<Rightarrow> Inr [] | JNull \<Rightarrow> Inr [] | _ \<Rightarrow> ToString rt x) xs)"
| "ToString rt (JObject kvs) =
     (if ''toString'' \<in> set (map fst kvs)
      then Inl (TypeError ''Cannot convert object to primitive value'')
      else Inr ''[object Object]'')"

text \<open>\<open>Number(v)\<close>: the conversion to a number. An object goes through its string.\<close>

definition Number :: "'n js_runtime \<Rightarrow> 'n jsval \<Rightarrow> js_error + 'n" where
  "Number rt v =
     (case v of
        JUndefined \<Rightarrow> Inr (NaN rt)
      | JNull \<Rightarrow> Inr (fromInt rt 0)
      | JBool b \<Rightarrow> Inr (fromInt rt (if b then 1 else 0))
      | JNumber n \<Rightarrow> Inr n
      | JString s \<Rightarrow> Inr (StringToNumber rt s)
      | _ \<Rightarrow> bind_err (ToString rt v) (\<lambda>s. Inr (StringToNumber rt s)))"

text \<open>Truthiness, as \<open>if (v)\<close> tests it.\<close>

definition ToBoolean :: "'n js_runtime \<Rightarrow> 'n jsval \<Rightarrow> bool" where
  "ToBoolean rt v =
     (case v of
        JUndefined \<Rightarrow> False
      | JNull \<Rightarrow> False
      | JBool b \<Rightarrow> b
      | JNumber n \<Rightarrow> NumberToBoolean rt n
      | JString s \<Rightarrow> s \<noteq> []
      | _ \<Rightarrow> True)"

text \<open>
  Property access \<open>v.k\<close>, for a key \<open>k\<close> that no prototype defines (the five field
  names of a product): it throws on \<open>null\<close> and \<open>undefined\<close>, reads an own property
  of an object, and is \<open>undefined\<close> otherwise.
\<close>

definition get_prop :: "'n jsval \<Rightarrow> string \<Rightarrow> js_error + 'n jsval" where
  "get_prop v k =
     (case v of
        JUndefined \<Rightarrow>
          Inl (TypeError (''Cannot read properties of undefined (reading '' @ [CHR 0x27] @ k @ [CHR 0x27] @ '')''))
      | JNull \<Rightarrow>
          Inl (TypeError (''Cannot read properties of null (reading '' @ [CHR 0x27] @ k @ [CHR 0x27] @ '')''))
      | JObject kvs \<Rightarrow> Inr (case map_of kvs k of Some x \<Rightarrow> x | None \<Rightarrow> JUndefined)
      | _ \<Rightarrow> Inr JUndefined)"

section \<open>The validator package\<close>

text \<open>
  \<open>productValidator.js\<close> calls four functions of the npm package \<open>validator\<close>, which is a
  dependency and not part of the repository. They are modelled here as the package
  documents them, with the options the repository passes. Every one of them first
  checks that its argument is a string and throws a \<open>TypeError\<close> when it is not.
\<close>

definition typeName :: "'n jsval \<Rightarrow> string" where
  "typeName v =
     (case v of
        JUndefined \<Rightarrow> ''undefined''
      | JNull \<Rightarrow> ''null''
      | JBool b \<Rightarrow> ''boolean''
      | JNumber n \<Rightarrow> ''number''
      | JString s \<Rightarrow> ''string''
      | JArray xs \<Rightarrow> ''Array''
      | JObject kvs \<Rightarrow> ''Object'')"

definition assertString :: "'n jsval \<Rightarrow> js_error + string" where
  "assertString input =
     (case input of
        JString s \<Rightarrow> Inr s
      | _ \<Rightarrow> Inl (TypeError (''Expected a string but received a '' @ typeName input)))"

definition is_digit :: "char \<Rightarrow> bool" where
  "is_digit c = (c \<in> set ''0123456789'')"

text \<open>
  \<open>isNumeric(str, {no_symbols: true, allow_negatives: false})\<close>: with \<open>no_symbols\<close> the
  test is the regular expression \<open>^[0-9]+$\<close>.
\<close>

definition numeric_no_symbols :: "string \<Rightarrow> bool" where
  "numeric_no_symbols s = (s \<noteq> [] \<and> list_all is_digit s)"

definition validator_isNumeric :: "'n jsval \<Rightarrow> js_error + bool" where
  "validator_isNumeric str = bind_err (assertString str) (\<lambda>s. Inr (numeric_no_symbols s))"

text \<open>\<open>isEmpty(str)\<close>: the string has length zero.\<close>

definition validator_isEmpty :: "'n jsval \<Rightarrow> js_error + bool" where
  "validator_isEmpty str = bind_err (assertString str) (\<lambda>s. Inr (length s = 0))"

text \<open>
  \<open>isCurrency(str, {no_symbols: true, allow_negatives: false})\<close>. The package has no
  option \<open>no_symbols\<close> for this function, so only \<open>allow_negatives\<close> departs from the
  defaults, and the pattern is
  \<open>^(\$)?(0|[1-9]\d*|[1-9]\d{0,2}(,\d{3})*)?(\.\d{2})?$\<close> on a string with at least one
  digit: an optional dollar sign, an optional whole amount (with or without
  thousands separators) and an optional decimal part of exactly two digits.
\<close>

fun split_commas :: "string \<Rightarrow> string list" where
  "split_commas [] = [[]]"
| "split_commas (c # cs) =
     (if c = CHR '','' then [] # split_commas cs
      else (case split_commas cs of g # gs \<Rightarrow> (c # g) # gs | [] \<Rightarrow> [[c]]))"

definition leading_group :: "string \<Rightarrow> bool" where
  "leading_group g =
     (case g of [] \<Rightarrow> False
      | c # cs \<Rightarrow> is_digit c \<and> c \<noteq> CHR ''0'' \<and> length cs \<le> 2 \<and> list_all is_digit cs)"

definition whole_amount :: "string \<Rightarrow> bool" where
  "whole_amount w =
     (w = [] \<or> w = ''0''
      \<or> (case w of [] \<Rightarrow> False | c # cs \<Rightarrow> is_digit c \<and> c \<noteq> CHR ''0'' \<and> list_all is_digit cs)
      \<or> (case split_commas w of [] \<Rightarrow> False
          | g # gs \<Rightarrow> leading_group g \<and> list_all (\<lambda>h. length h = 3 \<and> list_all is_digit h) gs))"

definition decimal_amount :: "string \<Rightarrow> bool" where
  "decimal_amount d =
     (d = [] \<or> (case d of [] \<Rightarrow> False
                | c # cs \<Rightarrow> c = CHR ''.'' \<and> length cs = 2 \<and> list_all is_digit cs))"

definition currency_format :: "string \<Rightarrow> bool" where
  "currency_format s =
     (let t = (case s of c # cs \<Rightarrow> if c = CHR ''$'' then cs else s | [] \<Rightarrow> s)
      in list_ex is_digit t
         \<and> whole_amount (takeWhile (\<lambda>c. c \<noteq> CHR ''.'') t)
         \<and> decimal_amount (dropWhile (\<lambda>c. c \<noteq> CHR ''.'') t))"

definition validator_isCurrency :: "'n jsval \<Rightarrow> js_error + bool" where
  "validator_isCurrency str = bind_err (assertString str) (\<lambda>s. Inr (currency_format s))"

text \<open>
  \<open>escape(str)\<close> is a chain of global replacements, the ampersand first:
  \<^verbatim>\<open>str.replace(/&/g, '&amp;').replace(/"/g, '&quot;').replace(/'/g, '&#x27;')\<close>
  \<^verbatim>\<open>.replace(/</g, '&lt;').replace(/>/g, '&gt;').replace(/\//g, '&#x2F;')\<close>
  \<^verbatim>\<open>.replace(/\\/g, '&#x5C;').replace(/`/g, '&#96;')\<close>.
\<close>

definition replace_char :: "char \<Rightarrow> string \<Rightarrow> string \<Rightarrow> string" where
  "replace_char c r s = concat (map (\<lambda>x. if x = c then r else [x]) s)"

definition escape_string :: "string \<Rightarrow> string" where
  "escape_string s =
     replace_char (CHR 0x60) ''&#96;''
       (replace_char (CHR 0x5C) ''&#x5C;''
         (replace_char CHR ''/'' ''&#x2F;''
           (replace_char CHR ''>'' ''&gt;''
             (replace_char CHR ''<'' ''&lt;''
               (replace_char (CHR 0x27) ''&#x27;''
                 (replace_char (CHR 0x22) ''&quot;''
                   (replace_char CHR ''&'' ''&amp;'' s)))))))"

definition validator_escape :: "'n jsval \<Rightarrow> js_error + string" where
  "validator_escape str = bind_err (assertString str) (\<lambda>s. Inr (escape_string s))"

section \<open>The process state\<close>

text \<open>
  What the functions read and write besides their arguments: the \<open>product\<close> table
  behind the ORM, the calls made to the ORM, and the lines written with
  \<open>console.log\<close> (one entry per call, holding its arguments).

  The ORM (Prisma Client) and the database are external. A row of the table is its
  integer key and its other columns; \<open>next_id\<close> is the key the database assigns next.
  A storage failure is a choice of the environment: when \<open>fault\<close> is set, a call to
  the ORM throws that error.
\<close>

datatype 'n orm_call =
    FindMany "(string \<times> 'n jsval) list"
  | FindUnique "(string \<times> 'n jsval) list"
  | Create "(string \<times> 'n jsval) list"

record 'n world =
  table :: "(int \<times> (string \<times> 'n jsval) list) list"
  next_id :: int
  fault :: "js_error option"
  orm_calls :: "'n orm_call list"
  console :: "string list list"

definition console_log :: "string list \<Rightarrow> 'n world \<Rightarrow> 'n world" where
  "console_log args w = w\<lparr>console := console w @ [args]\<rparr>"

section \<open>The product model and its validator\<close>

text \<open>
  \<open>models/product.js\<close>:
  \<^verbatim>\<open>function Product(id = 'undefined', cat = 'undefined', name, desc, stock, price)\<close>
  stores \<open>Number(id)\<close>, \<open>Number(cat)\<close>, \<open>name\<close>, \<open>desc\<close>, \<open>Number(stock)\<close> and
  \<open>Number(price)\<close>. A default parameter value stands in for an argument that is
  \<open>undefined\<close>. The field \<open>id\<close> is written \<open>id'\<close> here.
\<close>

record 'n Product =
  id' :: 'n
  category_id :: 'n
  product_name :: "'n jsval"
  product_description :: "'n jsval"
  product_stock :: 'n
  product_price :: 'n

definition new_Product ::
  "'n js_runtime \<Rightarrow> 'n jsval \<Rightarrow> 'n jsval \<Rightarrow> 'n jsval \<Rightarrow> 'n jsval \<Rightarrow> 'n jsval \<Rightarrow> 'n jsval
     \<Rightarrow> js_error + 'n Product" where
  "new_Product rt ident cat name desc stock price =
     bind_err (Number rt (case ident of JUndefined \<Rightarrow> JString ''undefined'' | _ \<Rightarrow> ident)) (\<lambda>i.
     bind_err (Number rt (case cat of JUndefined \<Rightarrow> JString ''undefined'' | _ \<Rightarrow> cat)) (\<lambda>c.
     bind_err (Number rt stock) (\<lambda>s.
     bind_err (Number rt price) (\<lambda>p.
       Inr \<lparr>id' = i, category_id = c, product_name = name, product_description = desc,
            product_stock = s, product_price = p\<rparr>))))"

text \<open>The operator \<open>&&\<close> on conditions that may throw: the right side runs only after a true left side.\<close>

definition andalso :: "js_error + bool \<Rightarrow> js_error + bool \<Rightarrow> js_error + bool" where
  "andalso a b = (case a of Inl e \<Rightarrow> Inl e | Inr x \<Rightarrow> if x then b else Inr False)"

definition negate :: "js_error + bool \<Rightarrow> js_error + bool" where
  "negate a = bind_err a (\<lambda>x. Inr (\<not> x))"

text \<open>\<open>v + ''\<close>\<close>

definition plus_empty :: "'n js_runtime \<Rightarrow> 'n jsval \<Rightarrow> js_error + 'n jsval" where
  "plus_empty rt v = bind_err (ToString rt v) (\<lambda>s. Inr (JString s))"

text \<open>
  \<open>validateNewProduct(formProduct)\<close> of \<open>validators/productValidator.js\<close>. The result is
  \<open>Inr (Some p)\<close> for a returned product, \<open>Inr None\<close> for a returned \<open>undefined\<close> and
  \<open>Inl e\<close> for an exception that leaves the function.
\<close>

definition validateNewProduct ::
  "'n js_runtime \<Rightarrow> 'n world \<Rightarrow> 'n jsval \<Rightarrow> (js_error + 'n Product option) \<times> 'n world" where
  "validateNewProduct rt w formProduct =
     (let w1 = (case formProduct of
                  JNull \<Rightarrow> console_log [''validateNewProduct(): Parameter is null''] w
                | _ \<Rightarrow> w)
      in case
           andalso (bind_err (get_prop formProduct ''category_id'') (\<lambda>v.
                    bind_err (plus_empty rt v) validator_isNumeric))
          (andalso (negate (bind_err (get_prop formProduct ''product_name'') validator_isEmpty))
          (andalso (negate (bind_err (get_prop formProduct ''product_description'') validator_isEmpty))
          (andalso (bind_err (get_prop formProduct ''product_stock'') (\<lambda>v.
                    bind_err (plus_empty rt v) validator_isNumeric))
                   (bind_err (get_prop formProduct ''product_price'') (\<lambda>v.
                    bind_err (plus_empty rt v) validator_isCurrency)))))
         of
           Inl e \<Rightarrow> (Inl e, w1)
         | Inr True \<Rightarrow>
             (bind_err (get_prop formProduct ''category_id'') (\<lambda>cat.
              bind_err (get_prop formProduct ''product_name'') (\<lambda>name.
              bind_err (validator_escape name) (\<lambda>escaped_name.
              bind_err (get_prop formProduct ''product_description'') (\<lambda>desc.
              bind_err (validator_escape desc) (\<lambda>escaped_desc.
              bind_err (get_prop formProduct ''product_stock'') (\<lambda>stock.
              bind_err (get_prop formProduct ''product_price'') (\<lambda>price.
              bind_err (new_Product rt (JNumber (fromInt rt 0)) cat (JString escaped_name)
                          (JString escaped_desc) stock price) (\<lambda>p.
                Inr (Some p))))))))),
              w1)
         | Inr False \<Rightarrow>
             (Inr None, console_log [''validateNewProduct(): Validation failed''] w1))"

text \<open>The character table that the replacement chain of \<open>escape\<close> amounts to.\<close>

definition html_entity :: "char \<Rightarrow> string" where
  "html_entity c =
     (if c = CHR ''&'' then ''&amp;''
      else if c = CHR 0x22 then ''&quot;''
      else if c = CHR 0x27 then ''&#x27;''
      else if c = CHR ''<'' then ''&lt;''
      else if c = CHR ''>'' then ''&gt;''
      else if c = CHR ''/'' then ''&#x2F;''
      else if c = CHR 0x5C then ''&#x5C;''
      else if c = CHR 0x60 then ''&#96;''
      else [c])"

text \<open>The own property \<open>k\<close> of an object with the entries \<open>kvs\<close>, \<open>undefined\<close> when absent.\<close>

definition field :: "(string \<times> 'n jsval) list \<Rightarrow> string \<Rightarrow> 'n jsval" where
  "field kvs k = (case map_of kvs k of Some x \<Rightarrow> x | None \<Rightarrow> JUndefined)"

text \<open>The value of \<open>v.k\<close> for a payload \<open>v\<close> other than \<open>null\<close> and \<open>undefined\<close>.\<close>

definition prop_of :: "'n jsval \<Rightarrow> string \<Rightarrow> 'n jsval" where
  "prop_of v k = (case v of JObject kvs \<Rightarrow> field kvs k | _ \<Rightarrow> JUndefined)"

text \<open>The condition of \<open>validateNewProduct\<close> on the fields of such a payload.\<close>

definition checks :: "'n js_runtime \<Rightarrow> 'n jsval \<Rightarrow> js_error + bool" where
  "checks rt v =
     andalso (bind_err (plus_empty rt (prop_of v ''category_id'')) validator_isNumeric)
    (andalso (negate (validator_isEmpty (prop_of v ''product_name'')))
    (andalso (negate (validator_isEmpty (prop_of v ''product_description'')))
    (andalso (bind_err (plus_empty rt (prop_of v ''product_stock'')) validator_isNumeric)
             (bind_err (plus_empty rt (prop_of v ''product_price'')) validator_isCurrency))))"

text \<open>
  A payload on which a check answers false after the checks before it have passed,
  in the order of the source: the \<open>category_id\<close> does not print as an unsigned digit
  string; or it does and the \<open>product_name\<close> is the empty string; or that is a
  non-empty string and the \<open>product_description\<close> is the empty string; or that is a
  non-empty string and the \<open>product_stock\<close> does not print as an unsigned digit
  string; or it does and the \<open>product_price\<close> does not print in currency format.
  Nothing is asked of the fields after the failing one.
\<close>

definition answers_false :: "'n js_runtime \<Rightarrow> 'n jsval \<Rightarrow> bool" where
  "answers_false rt v =
     (\<exists>c. ToString rt (prop_of v ''category_id'') = Inr c \<and>
        (\<not> numeric_no_symbols c \<or>
         (\<exists>name. prop_of v ''product_name'' = JString name \<and>
            (name = [] \<or>
             (\<exists>desc. prop_of v ''product_description'' = JString desc \<and>
                (desc = [] \<or>
                 (\<exists>s. ToString rt (prop_of v ''product_stock'') = Inr s \<and>
                    (\<not> numeric_no_symbols s \<or>
                     (\<exists>p. ToString rt (prop_of v ''product_price'') = Inr p \<and>
                        \<not> currency_format p)))))))))"

section \<open>The ORM\<close>

text \<open>
  The three operations of \<open>prisma.product\<close> that the data access layer calls, as the
  Prisma Client reference that the source links to documents them, taking the object
  literal they are called with as a list of entries (\<open>findMany()\<close> is the call with
  the empty list). A stored row is handed
  back as an object whose \<open>id\<close> is the key the database assigned, and a row matches a
  \<open>where\<close> object when it has every entry of it. \<open>findUnique\<close> answers \<open>null\<close> when no
  row matches, \<open>findMany\<close> an empty array. Each call is recorded; when the environment
  has set \<open>fault\<close> it throws instead.
\<close>

definition row_object :: "'n js_runtime \<Rightarrow> int \<times> (string \<times> 'n jsval) list \<Rightarrow> 'n jsval" where
  "row_object rt r = JObject ((''id'', JNumber (fromInt rt (fst r))) # snd r)"

definition row_matches ::
  "'n js_runtime \<Rightarrow> (string \<times> 'n jsval) list \<Rightarrow> int \<times> (string \<times> 'n jsval) list \<Rightarrow> bool" where
  "row_matches rt wh r =
     list_all (\<lambda>kv. map_of ((''id'', JNumber (fromInt rt (fst r))) # snd r) (fst kv) = Some (snd kv)) wh"

definition prisma_product_findMany ::
  "'n js_runtime \<Rightarrow> 'n world \<Rightarrow> (string \<times> 'n jsval) list \<Rightarrow> (js_error + 'n jsval) \<times> 'n world" where
  "prisma_product_findMany rt w wh =
     (let w' = w\<lparr>orm_calls := orm_calls w @ [FindMany wh]\<rparr>
      in case fault w of
           Some e \<Rightarrow> (Inl e, w')
         | None \<Rightarrow> (Inr (JArray (map (row_object rt) (filter (row_matches rt wh) (table w)))), w'))"

definition prisma_product_findUnique ::
  "'n js_runtime \<Rightarrow> 'n world \<Rightarrow> (string \<times> 'n jsval) list \<Rightarrow> (js_error + 'n jsval) \<times> 'n world" where
  "prisma_product_findUnique rt w wh =
     (let w' = w\<lparr>orm_calls := orm_calls w @ [FindUnique wh]\<rparr>
      in case fault w of
           Some e \<Rightarrow> (Inl e, w')
         | None \<Rightarrow>
             (case find (row_matches rt wh) (table w) of
                None \<Rightarrow> (Inr JNull, w')
              | Some r \<Rightarrow> (Inr (row_object rt r), w')))"

definition prisma_product_create ::
  "'n js_runtime \<Rightarrow> 'n world \<Rightarrow> (string \<times> 'n jsval) list \<Rightarrow> (js_error + 'n jsval) \<times> 'n world" where
  "prisma_product_create rt w data =
     (let w' = w\<lparr>orm_calls := orm_calls w @ [Create data]\<rparr>
      in case fault w of
           Some e \<Rightarrow> (Inl e, w')
         | None \<Rightarrow>
             (Inr (row_object rt (next_id w, data)),
              w'\<lparr>table := table w @ [(next_id w, data)], next_id := next_id w + 1\<rparr>))"

section \<open>Data access: dataAccess/productData.js\<close>

text \<open>
  Each function declares a variable, assigns it the awaited result of the ORM call
  inside \<open>try\<close>, logs the message of a caught error, and returns the variable, which is
  still \<open>undefined\<close> when the call threw.
\<close>

definition productData_getProducts :: "'n js_runtime \<Rightarrow> 'n world \<Rightarrow> 'n jsval \<times> 'n world" where
  "productData_getProducts rt w =
     (case prisma_product_findMany rt w [] of
        (Inr products, w') \<Rightarrow> (products, w')
      | (Inl err, w') \<Rightarrow>
          (JUndefined, console_log [''DB Error - get all products: '', message err] w'))"

definition productData_getProductById ::
  "'n js_runtime \<Rightarrow> 'n world \<Rightarrow> 'n jsval \<Rightarrow> 'n jsval \<times> 'n world" where
  "productData_getProductById rt w ident =
     (case prisma_product_findUnique rt w [(''id'', ident)] of
        (Inr product, w') \<Rightarrow> (product, w')
      | (Inl err, w') \<Rightarrow>
          (JUndefined, console_log [''DB Error - get product by id: '', message err] w'))"

definition productData_getProductsByCatId ::
  "'n js_runtime \<Rightarrow> 'n world \<Rightarrow> 'n jsval \<Rightarrow> 'n jsval \<times> 'n world" where
  "productData_getProductsByCatId rt w catId =
     (case prisma_product_findMany rt w [(''category_id'', catId)] of
        (Inr products, w') \<Rightarrow> (products, w')
      | (Inl err, w') \<Rightarrow>
          (JUndefined, console_log [''DB Error - get products by category: '', message err] w'))"

text \<open>
  \<open>createProduct(product)\<close>, as the readme gives it for \<open>productData.js\<close>. The data
  object is built inside \<open>try\<close>, so an exception of a \<open>Number\<close> call is caught as well.
\<close>

definition productData_createProduct ::
  "'n js_runtime \<Rightarrow> 'n world \<Rightarrow> 'n Product \<Rightarrow> 'n jsval \<times> 'n world" where
  "productData_createProduct rt w product =
     (case bind_err (Number rt (JNumber (category_id product))) (\<lambda>c.
           bind_err (Number rt (JNumber (product_stock product))) (\<lambda>s.
           bind_err (Number rt (JNumber (product_price product))) (\<lambda>p.
             Inr [(''category_id'', JNumber c),
                  (''product_name'', product_name product),
                  (''product_description'', product_description product),
                  (''product_stock'', JNumber s),
                  (''product_price'', JNumber p)]))) of
        Inl err \<Rightarrow> (JUndefined, console_log [''DB Error - create product: '', message err] w)
      | Inr data \<Rightarrow>
          (case prisma_product_create rt w data of
             (Inr newProduct, w') \<Rightarrow> (newProduct, w')
           | (Inl err, w') \<Rightarrow>
               (JUndefined, console_log [''DB Error - create product: '', message err] w')))"

text \<open>The data object that \<open>createProduct\<close> passes to the ORM for a product.\<close>

definition product_data :: "'n Product \<Rightarrow> (string \<times> 'n jsval) list" where
  "product_data product =
     [(''category_id'', JNumber (category_id product)),
      (''product_name'', product_name product),
      (''product_description'', product_description product),
      (''product_stock'', JNumber (product_stock product)),
      (''product_price'', JNumber (product_price product))]"

section \<open>Identifier validation\<close>

definition digit_value :: "char \<Rightarrow> nat" where
  "digit_value c = of_char c - 48"

definition nat_of_digits :: "string \<Rightarrow> nat" where
  "nat_of_digits s = foldl (\<lambda>a c. 10 * a + digit_value c) 0 s"

definition digit_char :: "nat \<Rightarrow> char" where
  "digit_char d = ''0123456789'' ! d"

text \<open>The decimal numeral of a natural number.\<close>

fun show_nat :: "nat \<Rightarrow> string" where
  "show_nat n =
     (if n < 10 then [digit_char n] else show_nat (n div 10) @ [digit_char (n mod 10)])"

declare show_nat.simps [simp del]

text \<open>
  Modelled from the spec: \<open>validators/baseValidators.js\<close>, which defines \<open>validateId\<close>,
  is not among the source files. The specification (4.2) has it accept a raw
  identifier as received from a route parameter, confirm that it represents a
  positive integer, and return the normalized integer or a falsy signal, rejecting
  anything that is not a clean positive integer string. The falsy signal is
  \<open>false\<close> here.
\<close>

definition validateId :: "'n js_runtime \<Rightarrow> 'n jsval \<Rightarrow> 'n jsval" where
  "validateId rt ident =
     (case ident of
        JString s \<Rightarrow>
          if numeric_no_symbols s \<and> 0 < nat_of_digits s
          then JNumber (fromInt rt (int (nat_of_digits s)))
          else JBool False
      | _ \<Rightarrow> JBool False)"

section \<open>Services: services/productService.js\<close>

text \<open>
  The service functions take the validator's \<open>validateId\<close> as the parameter \<open>vid\<close>,
  so that what is proved of them holds for whatever that function returns.
\<close>

definition productService_getProducts :: "'n js_runtime \<Rightarrow> 'n world \<Rightarrow> 'n jsval \<times> 'n world" where
  "productService_getProducts rt w = productData_getProducts rt w"

definition productService_getProductById ::
  "'n js_runtime \<Rightarrow> ('n jsval \<Rightarrow> 'n jsval) \<Rightarrow> 'n world \<Rightarrow> 'n jsval \<Rightarrow> 'n jsval \<times> 'n world" where
  "productService_getProductById rt vid w ident =
     (let validatedId = vid ident
      in if ToBoolean rt validatedId then productData_getProductById rt w validatedId
         else (JString ''Invalid product id'', w))"

definition productService_getProductsByCatId ::
  "'n js_runtime \<Rightarrow> ('n jsval \<Rightarrow> 'n jsval) \<Rightarrow> 'n world \<Rightarrow> 'n jsval \<Rightarrow> 'n jsval \<times> 'n world" where
  "productService_getProductsByCatId rt vid w ident =
     (let validatedId = vid ident
      in if ToBoolean rt validatedId then productData_getProductsByCatId rt w validatedId
         else (JString ''Invalid product id'', w))"

text \<open>
  \<open>addNewProduct(productForm)\<close>, as the readme gives it. An exception of the
  validator leaves the function.
\<close>

definition productService_addNewProduct ::
  "'n js_runtime \<Rightarrow> 'n world \<Rightarrow> 'n jsval \<Rightarrow> (js_error + 'n jsval) \<times> 'n world" where
  "productService_addNewProduct rt w productForm =
     (case validateNewProduct rt w productForm of
        (Inl err, w1) \<Rightarrow> (Inl err, w1)
      | (Inr (Some validatedProduct), w1) \<Rightarrow>
          (case productData_createProduct rt w1 validatedProduct of
             (result, w2) \<Rightarrow> (Inr result, w2))
      | (Inr None, w1) \<Rightarrow> (Inr (JString ''invalid product data''), w1))"

section \<open>Controller: controllers/productController.js\<close>

text \<open>
  The response object of Express, as far as the handlers use it. \<open>statusCode\<close> is the
  property that \<open>res.status\<close> sets; \<open>sent\<close> is what went to the client, the status
  code at that moment and the body. \<open>res.json\<close> and \<open>res.send\<close> send once: on a
  response that was already sent, setting its headers throws, which \<open>res.send\<close> does
  for a string and \<open>res.json\<close> for every value that has a JSON text (all but
  \<open>undefined\<close>).
\<close>

datatype 'n res_body = Json "'n jsval" | Text string

record 'n response =
  statusCode :: nat
  statusMessage :: "string option"
  sent :: "(nat \<times> 'n res_body) option"

definition new_response :: "'n response" where
  "new_response = \<lparr>statusCode = 200, statusMessage = None, sent = None\<rparr>"

definition res_status :: "nat \<Rightarrow> 'n response \<Rightarrow> 'n response" where
  "res_status code res = res\<lparr>statusCode := code\<rparr>"

definition headers_sent_error :: js_error where
  "headers_sent_error = JsError ''Cannot set headers after they are sent to the client''"

definition res_json :: "'n jsval \<Rightarrow> 'n response \<Rightarrow> js_error + 'n response" where
  "res_json v res =
     (case sent res of
        None \<Rightarrow> Inr (res\<lparr>sent := Some (statusCode res, Json v)\<rparr>)
      | Some x \<Rightarrow> (case v of JUndefined \<Rightarrow> Inr res | _ \<Rightarrow> Inl headers_sent_error))"

definition res_send :: "string \<Rightarrow> 'n response \<Rightarrow> js_error + 'n response" where
  "res_send text res =
     (case sent res of
        None \<Rightarrow> Inr (res\<lparr>sent := Some (statusCode res, Text text)\<rparr>)
      | Some x \<Rightarrow> Inl headers_sent_error)"

text \<open>
  The block every handler ends with,
  \<^verbatim>\<open>try { const result = await ...; res.json(result); }\<close>
  \<^verbatim>\<open>catch (err) { res.status(500); res.send(err.message); }\<close>,
  given the outcome of the awaited service call. The second component is an exception
  thrown inside \<open>catch\<close>, which nothing handles.
\<close>

definition json_or_500 ::
  "js_error + 'n jsval \<Rightarrow> 'n response \<Rightarrow> 'n response \<times> js_error option" where
  "json_or_500 result res =
     (case bind_err result (\<lambda>v. res_json v res) of
        Inr res' \<Rightarrow> (res', None)
      | Inl err \<Rightarrow>
          (case res_send (message err) (res_status 500 res) of
             Inr res' \<Rightarrow> (res', None)
           | Inl err' \<Rightarrow> (res_status 500 res, Some err')))"

text \<open>
  A handler takes the state, the response object and what it reads from the request,
  and yields the response, an unhandled exception if there was one, and the state.
\<close>

definition router_get_root ::
  "'n js_runtime \<Rightarrow> 'n world \<Rightarrow> 'n response \<Rightarrow> 'n response \<times> js_error option \<times> 'n world" where
  "router_get_root rt w res =
     (case productService_getProducts rt w of
        (result, w') \<Rightarrow> (case json_or_500 (Inr result) res of (res', unhandled) \<Rightarrow> (res', unhandled, w')))"

definition router_get_id ::
  "'n js_runtime \<Rightarrow> ('n jsval \<Rightarrow> 'n jsval) \<Rightarrow> 'n world \<Rightarrow> 'n response \<Rightarrow> 'n jsval
     \<Rightarrow> 'n response \<times> js_error option \<times> 'n world" where
  "router_get_id rt vid w res params_id =
     (case productService_getProductById rt vid w params_id of
        (result, w') \<Rightarrow> (case json_or_500 (Inr result) res of (res', unhandled) \<Rightarrow> (res', unhandled, w')))"

text \<open>The check of the two handlers below that sets status 400 and does not return.\<close>

definition bad_request_if_undefined ::
  "string \<Rightarrow> 'n jsval \<Rightarrow> 'n response \<Rightarrow> js_error + 'n response" where
  "bad_request_if_undefined msg v res =
     (case v of
        JUndefined \<Rightarrow>
          res_json (JObject [(''content'', JString ''error'')])
            (res_status 400 (res\<lparr>statusMessage := Some msg\<rparr>))
      | _ \<Rightarrow> Inr res)"

definition router_get_bycat ::
  "'n js_runtime \<Rightarrow> ('n jsval \<Rightarrow> 'n jsval) \<Rightarrow> 'n world \<Rightarrow> 'n response \<Rightarrow> 'n jsval
     \<Rightarrow> 'n response \<times> js_error option \<times> 'n world" where
  "router_get_bycat rt vid w res catId =
     (case bad_request_if_undefined ''Bad Request - missing cat id'' catId res of
        Inl err \<Rightarrow> (res_status 400 (res\<lparr>statusMessage := Some ''Bad Request - missing cat id''\<rparr>), Some err, w)
      | Inr res1 \<Rightarrow>
          (case productService_getProductsByCatId rt vid w catId of
             (result, w') \<Rightarrow>
               (case json_or_500 (Inr result) res1 of (res', unhandled) \<Rightarrow> (res', unhandled, w'))))"

text \<open>
  \<open>router.post('/')\<close>, as the readme gives it; \<open>newProduct\<close> is \<open>req.body\<close>. The handler
  logs a template literal, which converts the body to a string outside \<open>try\<close>.
\<close>

definition product_data_sent :: "string \<Rightarrow> string" where
  "product_data_sent text = ''product data sent:'' @ [CHR 0x0A] @ '' '' @ text"

definition router_post_root ::
  "'n js_runtime \<Rightarrow> 'n world \<Rightarrow> 'n response \<Rightarrow> 'n jsval
     \<Rightarrow> 'n response \<times> js_error option \<times> 'n world" where
  "router_post_root rt w res newProduct =
     (case bad_request_if_undefined ''Bad Request - missing product data'' newProduct res of
        Inl err \<Rightarrow>
          (res_status 400 (res\<lparr>statusMessage := Some ''Bad Request - missing product data''\<rparr>), Some err, w)
      | Inr res1 \<Rightarrow>
          (case ToString rt newProduct of
             Inl err \<Rightarrow> (res1, Some err, w)
           | Inr text \<Rightarrow>
               (case productService_addNewProduct rt
                       (console_log [product_data_sent text] w) newProduct of
                  (result, w') \<Rightarrow>
                    (case json_or_500 result res1 of (res', unhandled) \<Rightarrow> (res', unhandled, w')))))"

section \<open>The storage invariant\<close>

text \<open>
  Modelled from the spec: the database schema and the engine that assigns keys are
  not among the source files. The specification (3) has the \<open>id\<close> of a product
  auto-assigned by storage on creation, unique and positive. In the model the next
  key is positive and above every key in the table, which holds of a freshly created
  database and which every operation keeps.
\<close>

definition storage_ok :: "'n world \<Rightarrow> bool" where
  "storage_ok w =
     (0 < next_id w \<and> list_all (\<lambda>r. 0 < fst r \<and> fst r < next_id w) (table w))"

section \<open>A runtime for concrete runs\<close>

text \<open>
  To run the model on concrete requests the number type is instantiated with finite
  decimals: \<open>Dec m e\<close> is \<open>m / 10 ^ e\<close>, kept without trailing zeros in the fraction.
  The conversions agree with the language on plain decimal numerals (an optional
  minus sign, digits and a fraction, one of which may be missing) of moderate size;
  exponents, white space, hexadecimal numerals and the infinities are outside this
  fragment.
\<close>

datatype decimal = DNaN | Dec int nat

definition decimal_to_string :: "decimal \<Rightarrow> string" where
  "decimal_to_string x =
     (case x of
        DNaN \<Rightarrow> ''NaN''
      | Dec m e \<Rightarrow>
          (let a = nat \<bar>m\<bar>; sign = (if m < 0 then ''-'' else []);
               frac = show_nat (a mod 10 ^ e)
           in if e = 0 then sign @ show_nat a
              else sign @ show_nat (a div 10 ^ e) @ ''.''
                   @ replicate (e - length frac) CHR ''0'' @ frac))"

definition unsigned_decimal :: "string \<Rightarrow> decimal" where
  "unsigned_decimal s =
     (let ip = takeWhile (\<lambda>c. c \<noteq> CHR ''.'') s; rest = dropWhile (\<lambda>c. c \<noteq> CHR ''.'') s
      in if rest = [] then (if numeric_no_symbols ip then Dec (int (nat_of_digits ip)) 0 else DNaN)
         else (let fp = rev (dropWhile (\<lambda>c. c = CHR ''0'') (rev (tl rest)))
               in if list_all is_digit ip \<and> list_all is_digit (tl rest)
                     \<and> (ip \<noteq> [] \<or> tl rest \<noteq> [])
                  then Dec (int (nat_of_digits (ip @ fp))) (length fp) else DNaN))"

definition string_to_decimal :: "string \<Rightarrow> decimal" where
  "string_to_decimal s =
     (case s of
        [] \<Rightarrow> Dec 0 0
      | c # cs \<Rightarrow>
          if c = CHR ''-''
          then (case unsigned_decimal cs of DNaN \<Rightarrow> DNaN | Dec m e \<Rightarrow> Dec (- m) e)
          else unsigned_decimal s)"

definition decimal_runtime :: "decimal js_runtime" where
  "decimal_runtime =
     \<lparr>NaN = DNaN, fromInt = (\<lambda>k. Dec k 0), NumberToString = decimal_to_string,
      StringToNumber = string_to_decimal,
      NumberToBoolean = (\<lambda>x. case x of DNaN \<Rightarrow> False | Dec m e \<Rightarrow> m \<noteq> 0)\<rparr>"

text \<open>A freshly created database, and one whose every ORM call fails.\<close>

definition empty_world :: "decimal world" where
  "empty_world = \<lparr>table = [], next_id = 1, fault = None, orm_calls = [], console = []\<rparr>"

definition failing_world :: "decimal world" where
  "failing_world = empty_world\<lparr>fault := Some (JsError ''Can not reach database server'')\<rparr>"

text \<open>The request body of the specification's example, with markup in the description.\<close>

definition widget :: "(string \<times> decimal jsval) list" where
  "widget =
     [(''category_id'', JNumber (Dec 1 0)),
      (''product_name'', JString ''Widget''),
      (''product_description'', JString ''A <b>widget</b>''),
      (''product_stock'', JNumber (Dec 10 0)),
      (''product_price'', JString ''9.99'')]"

text \<open>The product that the validator makes of that body, and the body without a name.\<close>

definition widget_product :: "decimal Product" where
  "widget_product =
     \<lparr>id' = Dec 0 0, category_id = Dec 1 0, product_name = JString ''Widget'',
      product_description = JString ''A &lt;b&gt;widget&lt;&#x2F;b&gt;'',
      product_stock = Dec 10 0, product_price = Dec 999 2\<rparr>"

definition nameless_widget :: "(string \<times> decimal jsval) list" where
  "nameless_widget =
     [(''category_id'', JNumber (Dec 1 0)),
      (''product_description'', JString ''A widget''),
      (''product_stock'', JNumber (Dec 10 0)),
      (''product_price'', JString ''9.99'')]"

text \<open>A body with an empty name and no description, and one whose category cannot be printed.\<close>

definition blank_widget :: "(string \<times> decimal jsval) list" where
  "blank_widget =
     [(''category_id'', JNumber (Dec 1 0)),
      (''product_name'', JString []),
      (''product_stock'', JNumber (Dec 10 0)),
      (''product_price'', JString ''9.99'')]"

definition opaque_widget :: "(string \<times> decimal jsval) list" where
  "opaque_widget =
     [(''category_id'', JObject [(''toString'', JNumber (Dec 1 0))]),
      (''product_name'', JString ''Widget''),
      (''product_description'', JString ''A widget''),
      (''product_stock'', JNumber (Dec 10 0)),
      (''product_price'', JString ''9.99'')]"

section \<open>Properties of the validator\<close>

lemma replace_char_append:
  "replace_char c r (a @ b) = replace_char c r a @ replace_char c r b"
  by (simp add: replace_char_def)

lemma replace_char_Nil: "replace_char c r [] = []"
  by (simp add: replace_char_def)

lemma replace_char_Cons:
  "replace_char c r (x # xs) = (if x = c then r else [x]) @ replace_char c r xs"
  by (simp add: replace_char_def)

lemma escape_string_Cons: "escape_string (x # xs) = html_entity x @ escape_string xs"
  by (simp add: escape_string_def html_entity_def replace_char_Cons replace_char_append
      replace_char_Nil)

lemma escape_string_table: "escape_string s = concat (map html_entity s)"
  by (induction s) (simp_all add: escape_string_Cons, simp add: escape_string_def replace_char_def)

lemma ToString_Number: "ToString rt v = Inr s \<Longrightarrow> \<exists>n. Number rt v = Inr n"
  by (cases v) (simp_all add: Number_def bind_err_def)

lemma numeric_not_undefined:
  "ToString rt v = Inr c \<Longrightarrow> numeric_no_symbols c \<Longrightarrow> v \<noteq> JUndefined"
  by (auto simp: numeric_no_symbols_def is_digit_def)

text \<open>
  C1. A well-formed payload is an object whose \<open>category_id\<close> and \<open>product_stock\<close>
  print as unsigned digit strings (the non-negative numeric values of
  \<open>isNumeric\<close> without symbols), whose \<open>product_name\<close> and \<open>product_description\<close> are
  non-empty strings, and whose \<open>product_price\<close> prints in currency format. For every
  such payload \<open>validateNewProduct\<close> returns a product, without logging: its \<open>id\<close> is
  the number 0, its \<open>category_id\<close>, \<open>product_stock\<close> and \<open>product_price\<close> are the
  \<open>Number\<close> conversions of the payload's fields, and its two text fields are the
  payload's with every character replaced by its entity, where the entities of
  \<open><\<close>, \<open>>\<close>, \<open>&\<close> and the double quote are \<open>&lt;\<close>, \<open>&gt;\<close>, \<open>&amp;\<close> and \<open>&quot;\<close>.
\<close>

theorem validateNewProduct_well_formed:
  assumes cat: "ToString rt (field kvs ''category_id'') = Inr c" "numeric_no_symbols c"
    and name: "field kvs ''product_name'' = JString name" "name \<noteq> []"
    and desc: "field kvs ''product_description'' = JString desc" "desc \<noteq> []"
    and stock: "ToString rt (field kvs ''product_stock'') = Inr s" "numeric_no_symbols s"
    and price: "ToString rt (field kvs ''product_price'') = Inr p" "currency_format p"
  shows "\<exists>cn sn pn.
           Number rt (field kvs ''category_id'') = Inr cn
         \<and> Number rt (field kvs ''product_stock'') = Inr sn
         \<and> Number rt (field kvs ''product_price'') = Inr pn
         \<and> validateNewProduct rt w (JObject kvs) =
             (Inr (Some \<lparr>id' = fromInt rt 0, category_id = cn,
                         product_name = JString (concat (map html_entity name)),
                         product_description = JString (concat (map html_entity desc)),
                         product_stock = sn, product_price = pn\<rparr>), w)
         \<and> html_entity CHR ''<'' = ''&lt;'' \<and> html_entity CHR ''>'' = ''&gt;''
         \<and> html_entity CHR ''&'' = ''&amp;'' \<and> html_entity (CHR 0x22) = ''&quot;''"
proof -
  obtain cn where cn: "Number rt (field kvs ''category_id'') = Inr cn"
    using ToString_Number [OF cat(1)] by blast
  obtain sn where sn: "Number rt (field kvs ''product_stock'') = Inr sn"
    using ToString_Number [OF stock(1)] by blast
  obtain pn where pn: "Number rt (field kvs ''product_price'') = Inr pn"
    using ToString_Number [OF price(1)] by blast
  have nu: "field kvs ''category_id'' \<noteq> JUndefined"
    using numeric_not_undefined [OF cat] .
  have "validateNewProduct rt w (JObject kvs) =
             (Inr (Some \<lparr>id' = fromInt rt 0, category_id = cn,
                         product_name = JString (concat (map html_entity name)),
                         product_description = JString (concat (map html_entity desc)),
                         product_stock = sn, product_price = pn\<rparr>), w)"
    using assms cn sn pn nu
    by (cases "field kvs ''category_id''")
       (simp_all add: validateNewProduct_def get_prop_def field_def [symmetric] plus_empty_def
        bind_err_def andalso_def negate_def validator_isNumeric_def validator_isEmpty_def
        validator_isCurrency_def validator_escape_def assertString_def new_Product_def
        escape_string_table Number_def)
  moreover have "html_entity CHR ''<'' = ''&lt;'' \<and> html_entity CHR ''>'' = ''&gt;''
         \<and> html_entity CHR ''&'' = ''&amp;'' \<and> html_entity (CHR 0x22) = ''&quot;''"
    by (simp add: html_entity_def)
  ultimately show ?thesis using cn sn pn by blast
qed

theorem validateNewProduct_well_formed_witness:
  "numeric_no_symbols ''1'' \<and> numeric_no_symbols ''10'' \<and> currency_format ''9.99''
   \<and> validateNewProduct decimal_runtime empty_world (JObject widget) =
       (Inr (Some \<lparr>id' = Dec 0 0, category_id = Dec 1 0, product_name = JString ''Widget'',
                   product_description = JString ''A &lt;b&gt;widget&lt;&#x2F;b&gt;'',
                   product_stock = Dec 10 0, product_price = Dec 999 2\<rparr>), empty_world)"
proof -
  have n1: "numeric_no_symbols ''1''" and n10: "numeric_no_symbols ''10''"
    by (simp_all add: numeric_no_symbols_def is_digit_def)
  have cur: "currency_format ''9.99''"
    by (simp add: currency_format_def whole_amount_def decimal_amount_def is_digit_def)
  have s1: "ToString decimal_runtime (field widget ''category_id'') = Inr ''1''"
    by code_simp
  have s10: "ToString decimal_runtime (field widget ''product_stock'') = Inr ''10''"
    by code_simp
  have sp: "ToString decimal_runtime (field widget ''product_price'') = Inr ''9.99''"
    by code_simp
  have nm: "field widget ''product_name'' = JString ''Widget''"
    and ds: "field widget ''product_description'' = JString ''A <b>widget</b>''"
    by (simp_all add: field_def widget_def)
  have c: "Number decimal_runtime (field widget ''category_id'') = Inr (Dec 1 0)"
    and st: "Number decimal_runtime (field widget ''product_stock'') = Inr (Dec 10 0)"
    by (simp_all add: field_def widget_def Number_def)
  have pr: "Number decimal_runtime (field widget ''product_price'') = Inr (Dec 999 2)"
    by code_simp
  have e: "concat (map html_entity ''A <b>widget</b>'') = ''A &lt;b&gt;widget&lt;&#x2F;b&gt;''"
    and e': "concat (map html_entity ''Widget'') = ''Widget''"
    by (simp_all add: html_entity_def)
  show ?thesis
    using validateNewProduct_well_formed [OF s1 n1 nm _ ds _ s10 n10 sp cur, of empty_world]
      n1 n10 cur c st pr e e'
    by (simp add: decimal_runtime_def)
qed


section \<open>Invalid payloads\<close>

text \<open>
  C2, as stated, fails: a \<open>null\<close> payload is logged and then dereferenced, a payload
  whose \<open>product_name\<close> is missing or is a number reaches \<open>isEmpty\<close>, which accepts
  strings only, and a \<open>category_id\<close> that is an object with an own \<open>toString\<close> entry
  cannot be concatenated with a string. All four calls end in a \<open>TypeError\<close>.
\<close>

theorem validateNewProduct_throws:
  "fst (validateNewProduct decimal_runtime empty_world JNull) =
     Inl (TypeError (''Cannot read properties of null (reading ''
                     @ [CHR 0x27] @ ''category_id'' @ [CHR 0x27] @ '')''))
   \<and> fst (validateNewProduct decimal_runtime empty_world (JObject nameless_widget)) =
     Inl (TypeError ''Expected a string but received a undefined'')
   \<and> fst (validateNewProduct decimal_runtime empty_world
          (JObject ((''product_name'', JNumber (Dec 5 0)) # nameless_widget))) =
     Inl (TypeError ''Expected a string but received a number'')
   \<and> fst (validateNewProduct decimal_runtime empty_world (JObject opaque_widget)) =
     Inl (TypeError ''Cannot convert object to primitive value'')"
  by code_simp

lemma get_prop_defined:
  "v \<noteq> JNull \<Longrightarrow> v \<noteq> JUndefined \<Longrightarrow> get_prop v k = Inr (prop_of v k)"
  by (cases v) (simp_all add: get_prop_def prop_of_def field_def)

lemma bind_err_Inr: "bind_err (Inr x) f = f x"
  by (simp add: bind_err_def)

lemma checks_false: "(checks rt v = Inr False) = answers_false rt v"
  unfolding checks_def answers_false_def
  by (cases "ToString rt (prop_of v ''category_id'')"; cases "prop_of v ''product_name''";
      cases "prop_of v ''product_description''"; cases "ToString rt (prop_of v ''product_stock'')";
      cases "ToString rt (prop_of v ''product_price'')")
     (auto simp: andalso_def negate_def bind_err_def plus_empty_def validator_isNumeric_def
        validator_isEmpty_def validator_isCurrency_def assertString_def)

lemma validateNewProduct_checks:
  assumes "v \<noteq> JNull" "v \<noteq> JUndefined"
  shows "fst (validateNewProduct rt w v) = Inr None \<longleftrightarrow> checks rt v = Inr False"
    and "checks rt v = Inr False \<Longrightarrow>
           validateNewProduct rt w v =
             (Inr None, console_log [''validateNewProduct(): Validation failed''] w)"
proof -
  have w1: "(case v of JNull \<Rightarrow> console_log [''validateNewProduct(): Parameter is null''] w
             | _ \<Rightarrow> w) = w"
    using assms by (cases v) simp_all
  note g = get_prop_defined [OF assms]
  show "fst (validateNewProduct rt w v) = Inr None \<longleftrightarrow> checks rt v = Inr False"
    unfolding validateNewProduct_def checks_def Let_def w1 g bind_err_Inr
    by (auto simp: bind_err_def split: sum.splits bool.splits)
  show "checks rt v = Inr False \<Longrightarrow>
           validateNewProduct rt w v =
             (Inr None, console_log [''validateNewProduct(): Validation failed''] w)"
    unfolding validateNewProduct_def checks_def Let_def w1 g bind_err_Inr
    by simp
qed

text \<open>
  C2, amended. For every payload other than \<open>null\<close> and \<open>undefined\<close> on which one of
  the five checks answers false after the checks before it have passed,
  \<open>validateNewProduct\<close> returns \<open>undefined\<close> and throws nothing, whatever the fields
  after the failing one are (a missing or non-string text field included). Its only
  trace is the log line \<open>validateNewProduct(): Validation failed\<close>, the same whichever
  check failed. These are all the payloads for which it returns \<open>undefined\<close>.
\<close>

theorem validateNewProduct_invalid:
  assumes "v \<noteq> JNull" and "v \<noteq> JUndefined"
  shows "(answers_false rt v \<longrightarrow>
            validateNewProduct rt w v =
              (Inr None, console_log [''validateNewProduct(): Validation failed''] w))
       \<and> (fst (validateNewProduct rt w v) = Inr None \<longrightarrow> answers_false rt v)"
  using validateNewProduct_checks [OF assms, of rt w] checks_false [of rt v] by blast

lemma blank_widget_false: "answers_false decimal_runtime (JObject blank_widget)"
proof -
  have "ToString decimal_runtime (prop_of (JObject blank_widget) ''category_id'') = Inr ''1''"
    and "numeric_no_symbols ''1''"
    and "prop_of (JObject blank_widget :: decimal jsval) ''product_name'' = JString []"
    by code_simp+
  then show ?thesis
    unfolding answers_false_def by blast
qed

theorem validateNewProduct_invalid_witness:
  "validateNewProduct decimal_runtime empty_world (JObject []) =
     (Inr None, empty_world\<lparr>console := [[''validateNewProduct(): Validation failed'']]\<rparr>)
   \<and> validateNewProduct decimal_runtime empty_world (JString ''Widget'') =
     (Inr None, empty_world\<lparr>console := [[''validateNewProduct(): Validation failed'']]\<rparr>)
   \<and> validateNewProduct decimal_runtime empty_world (JObject blank_widget) =
     (Inr None, empty_world\<lparr>console := [[''validateNewProduct(): Validation failed'']]\<rparr>)"
proof -
  have u: "\<not> numeric_no_symbols ''undefined''"
    by (simp add: numeric_no_symbols_def is_digit_def)
  have a: "answers_false decimal_runtime (JObject [])"
    and b: "answers_false decimal_runtime (JString ''Widget'')"
    using u by (simp_all add: answers_false_def prop_of_def field_def)
  have l: "console_log [''validateNewProduct(): Validation failed''] empty_world =
      empty_world\<lparr>console := [[''validateNewProduct(): Validation failed'']]\<rparr>"
    by (simp add: console_log_def empty_world_def)
  show ?thesis
    using validateNewProduct_invalid [of "JObject []" decimal_runtime empty_world]
      validateNewProduct_invalid [of "JString ''Widget''" decimal_runtime empty_world]
      validateNewProduct_invalid [of "JObject blank_widget" decimal_runtime empty_world]
      a b blank_widget_false l
    by simp
qed

section \<open>Storage failures\<close>

lemma getProducts_fault:
  "fault w = Some e \<Longrightarrow>
   productData_getProducts rt w =
     (JUndefined, w\<lparr>orm_calls := orm_calls w @ [FindMany []],
                     console := console w @ [[''DB Error - get all products: '', message e]]\<rparr>)"
  by (simp add: productData_getProducts_def prisma_product_findMany_def console_log_def)

lemma getProductById_fault:
  "fault w = Some e \<Longrightarrow>
   productData_getProductById rt w ident =
     (JUndefined, w\<lparr>orm_calls := orm_calls w @ [FindUnique [(''id'', ident)]],
                     console := console w @ [[''DB Error - get product by id: '', message e]]\<rparr>)"
  by (simp add: productData_getProductById_def prisma_product_findUnique_def console_log_def)

lemma getProductsByCatId_fault:
  "fault w = Some e \<Longrightarrow>
   productData_getProductsByCatId rt w catId =
     (JUndefined, w\<lparr>orm_calls := orm_calls w @ [FindMany [(''category_id'', catId)]],
                     console := console w @ [[''DB Error - get products by category: '', message e]]\<rparr>)"
  by (simp add: productData_getProductsByCatId_def prisma_product_findMany_def console_log_def)

lemma createProduct_fault:
  "fault w = Some e \<Longrightarrow>
   productData_createProduct rt w product =
     (JUndefined, w\<lparr>orm_calls := orm_calls w @ [Create (product_data product)],
                     console := console w @ [[''DB Error - create product: '', message e]]\<rparr>)"
  by (simp add: productData_createProduct_def prisma_product_create_def console_log_def
      Number_def bind_err_def product_data_def)

lemma json_fresh:
  "json_or_500 (Inr v) new_response = (new_response\<lparr>sent := Some (200, Json v)\<rparr>, None)"
  by (simp add: json_or_500_def bind_err_def res_json_def new_response_def)

lemma bad_request_defined:
  "v \<noteq> JUndefined \<Longrightarrow> bad_request_if_undefined msg v res = Inr res"
  by (cases v) (simp_all add: bad_request_if_undefined_def)

lemma validateNewProduct_world:
  "validateNewProduct rt w v = (r, w1) \<Longrightarrow>
   table w1 = table w \<and> next_id w1 = next_id w \<and> fault w1 = fault w \<and> orm_calls w1 = orm_calls w"
  by (auto simp: validateNewProduct_def Let_def console_log_def
      split: sum.splits bool.splits jsval.splits)

lemma widget_valid:
  "validateNewProduct decimal_runtime w (JObject widget) = (Inr (Some widget_product), w)"
  by (simp add: validateNewProduct_def get_prop_def plus_empty_def bind_err_def andalso_def
      negate_def validator_isNumeric_def validator_isEmpty_def validator_isCurrency_def
      validator_escape_def assertString_def new_Product_def escape_string_table Number_def
      widget_def widget_product_def html_entity_def numeric_no_symbols_def is_digit_def
      currency_format_def whole_amount_def decimal_amount_def decimal_runtime_def
      decimal_to_string_def digit_char_def string_to_decimal_def unsigned_decimal_def
      nat_of_digits_def digit_value_def show_nat.simps)

text \<open>
  C3. When the storage layer throws, each of the four data access functions catches
  the error, logs one line that ends with the error's message, and returns
  \<open>undefined\<close>; the ORM call was made and nothing is propagated. The handlers then
  answer a fresh response with status 200 and the JSON of \<open>undefined\<close> (an empty
  body): \<open>GET /\<close> always, \<open>GET /:id\<close> and \<open>GET /bycat/:catId\<close> for an identifier that
  passes validation, and \<open>POST /\<close> for a body that passes validation.
\<close>

theorem storage_failure_swallowed:
  assumes f: "fault w = Some e"
  shows "productData_getProducts rt w =
           (JUndefined, w\<lparr>orm_calls := orm_calls w @ [FindMany []],
              console := console w @ [[''DB Error - get all products: '', message e]]\<rparr>)
       \<and> productData_getProductById rt w ident =
           (JUndefined, w\<lparr>orm_calls := orm_calls w @ [FindUnique [(''id'', ident)]],
              console := console w @ [[''DB Error - get product by id: '', message e]]\<rparr>)
       \<and> productData_getProductsByCatId rt w ident =
           (JUndefined, w\<lparr>orm_calls := orm_calls w @ [FindMany [(''category_id'', ident)]],
              console := console w @ [[''DB Error - get products by category: '', message e]]\<rparr>)
       \<and> productData_createProduct rt w product =
           (JUndefined, w\<lparr>orm_calls := orm_calls w @ [Create (product_data product)],
              console := console w @ [[''DB Error - create product: '', message e]]\<rparr>)
       \<and> fst (router_get_root rt w new_response) =
           new_response\<lparr>sent := Some (200, Json JUndefined)\<rparr>
       \<and> (ToBoolean rt (vid param) \<longrightarrow>
            fst (router_get_id rt vid w new_response param) =
              new_response\<lparr>sent := Some (200, Json JUndefined)\<rparr>)
       \<and> (ToBoolean rt (vid param) \<and> param \<noteq> JUndefined \<longrightarrow>
            fst (router_get_bycat rt vid w new_response param) =
              new_response\<lparr>sent := Some (200, Json JUndefined)\<rparr>)
       \<and> (body \<noteq> JUndefined \<and> ToString rt body = Inr printed
            \<and> fst (validateNewProduct rt (console_log [product_data_sent printed] w) body) =
                Inr (Some product) \<longrightarrow>
            fst (router_post_root rt w new_response body) =
              new_response\<lparr>sent := Some (200, Json JUndefined)\<rparr>)"
proof -
  have root: "fst (router_get_root rt w new_response) =
      new_response\<lparr>sent := Some (200, Json JUndefined)\<rparr>"
    by (simp add: router_get_root_def productService_getProducts_def getProducts_fault [OF f]
        json_fresh)
  have by_id: "fst (router_get_id rt vid w new_response param) =
      new_response\<lparr>sent := Some (200, Json JUndefined)\<rparr>" if "ToBoolean rt (vid param)"
    using that
    by (simp add: router_get_id_def productService_getProductById_def
        getProductById_fault [OF f] json_fresh)
  have bycat: "fst (router_get_bycat rt vid w new_response param) =
      new_response\<lparr>sent := Some (200, Json JUndefined)\<rparr>"
    if "ToBoolean rt (vid param)" and "param \<noteq> JUndefined"
    using that
    by (simp add: router_get_bycat_def bad_request_defined
        productService_getProductsByCatId_def getProductsByCatId_fault [OF f] json_fresh)
  have post: "fst (router_post_root rt w new_response body) =
      new_response\<lparr>sent := Some (200, Json JUndefined)\<rparr>"
    if b: "body \<noteq> JUndefined" and t: "ToString rt body = Inr printed"
      and v: "fst (validateNewProduct rt (console_log [product_data_sent printed] w) body) =
                Inr (Some product)"
  proof -
    obtain w1 where w1:
      "validateNewProduct rt (console_log [product_data_sent printed] w) body =
         (Inr (Some product), w1)"
      using v by (cases "validateNewProduct rt (console_log [product_data_sent printed] w) body") simp
    have f1: "fault w1 = Some e"
      using validateNewProduct_world [OF w1] f by (simp add: console_log_def)
    show ?thesis
      using b t
      by (simp add: router_post_root_def bad_request_defined productService_addNewProduct_def
          w1 createProduct_fault [OF f1] json_fresh)
  qed
  show ?thesis
    using getProducts_fault [OF f] getProductById_fault [OF f] getProductsByCatId_fault [OF f]
      createProduct_fault [OF f] root by_id bycat post
    by blast
qed

theorem storage_failure_swallowed_witness:
  "fault failing_world = Some (JsError ''Can not reach database server'')
   \<and> productData_getProductById decimal_runtime failing_world (JNumber (Dec 7 0)) =
       (JUndefined,
        failing_world\<lparr>orm_calls := [FindUnique [(''id'', JNumber (Dec 7 0))]],
          console := [[''DB Error - get product by id: '', ''Can not reach database server'']]\<rparr>)
   \<and> fst (router_get_root decimal_runtime failing_world new_response) =
       new_response\<lparr>sent := Some (200, Json JUndefined)\<rparr>
   \<and> fst (router_get_id decimal_runtime (validateId decimal_runtime) failing_world new_response
          (JString ''7'')) =
       new_response\<lparr>sent := Some (200, Json JUndefined)\<rparr>
   \<and> fst (router_post_root decimal_runtime failing_world new_response (JObject widget)) =
       new_response\<lparr>sent := Some (200, Json JUndefined)\<rparr>"
proof -
  have f: "fault failing_world = Some (JsError ''Can not reach database server'')"
    by (simp add: failing_world_def)
  have t: "ToBoolean decimal_runtime (validateId decimal_runtime (JString ''7''))"
    by code_simp
  have s: "ToString decimal_runtime (JObject widget) = Inr ''[object Object]''"
    by (simp add: widget_def)
  show ?thesis
    using storage_failure_swallowed [where w = failing_world and rt = decimal_runtime
        and e = "JsError ''Can not reach database server''" and ident = "JNumber (Dec 7 0)"
        and product = widget_product and vid = "validateId decimal_runtime"
        and param = "JString ''7''" and body = "JObject widget" and printed = "''[object Object]''"]
      f t s
    by (simp add: widget_valid failing_world_def empty_world_def)
qed

section \<open>Invalid identifiers\<close>

text \<open>
  C4. For every identifier that \<open>validateId\<close> rejects (its result is falsy), both
  service functions return the string \<open>Invalid product id\<close> and leave the state as it
  was: no ORM call is made and nothing is logged. \<open>GET /:id\<close> answers a fresh response
  with status 200 and that string as JSON, and so does \<open>GET /bycat/:catId\<close> for every
  route parameter (a route parameter is never \<open>undefined\<close>).
\<close>

theorem invalid_id_sentinel:
  assumes "\<not> ToBoolean rt (vid ident)"
  shows "productService_getProductById rt vid w ident = (JString ''Invalid product id'', w)
       \<and> productService_getProductsByCatId rt vid w ident = (JString ''Invalid product id'', w)
       \<and> router_get_id rt vid w new_response ident =
           (new_response\<lparr>sent := Some (200, Json (JString ''Invalid product id''))\<rparr>, None, w)
       \<and> (ident \<noteq> JUndefined \<longrightarrow>
            router_get_bycat rt vid w new_response ident =
              (new_response\<lparr>sent := Some (200, Json (JString ''Invalid product id''))\<rparr>,
               None, w))"
  using assms
  by (simp add: productService_getProductById_def productService_getProductsByCatId_def
      router_get_id_def router_get_bycat_def json_fresh bad_request_defined)

theorem invalid_id_sentinel_witness:
  "\<not> ToBoolean decimal_runtime (validateId decimal_runtime (JString ''abc''))
   \<and> router_get_id decimal_runtime (validateId decimal_runtime) empty_world new_response
        (JString ''abc'') =
       (new_response\<lparr>sent := Some (200, Json (JString ''Invalid product id''))\<rparr>, None,
        empty_world)
   \<and> router_get_bycat decimal_runtime (validateId decimal_runtime) empty_world new_response
        (JString ''abc'') =
       (new_response\<lparr>sent := Some (200, Json (JString ''Invalid product id''))\<rparr>, None,
        empty_world)"
proof -
  have n: "\<not> ToBoolean decimal_runtime (validateId decimal_runtime (JString ''abc''))"
    by code_simp
  show ?thesis
    using invalid_id_sentinel [of decimal_runtime "validateId decimal_runtime" "JString ''abc''"
        empty_world] n
    by simp
qed

section \<open>What reaches the ORM\<close>

lemma service_bycat_calls:
  "orm_calls (snd (productService_getProductsByCatId rt vid w ident)) =
     orm_calls w @ (if ToBoolean rt (vid ident) then [FindMany [(''category_id'', vid ident)]]
                    else [])"
  by (simp add: productService_getProductsByCatId_def productData_getProductsByCatId_def
      prisma_product_findMany_def console_log_def Let_def split: option.splits)

lemma service_byid_calls:
  "orm_calls (snd (productService_getProductById rt vid w ident)) =
     orm_calls w @ (if ToBoolean rt (vid ident) then [FindUnique [(''id'', vid ident)]] else [])"
  by (simp add: productService_getProductById_def productData_getProductById_def
      prisma_product_findUnique_def console_log_def Let_def split: option.splits)

text \<open>
  C10. The only ORM call that a service function makes with an identifier carries the
  result of \<open>validateId\<close> in its \<open>where\<close> object, under \<open>id\<close> or \<open>category_id\<close>, and it is
  made exactly when that result is truthy; the data access functions put their
  argument into the \<open>where\<close> object unchanged. With the \<open>validateId\<close> of the
  specification that value is never a string.
\<close>

theorem validated_id_reaches_orm:
  "orm_calls (snd (productService_getProductById rt vid w ident)) =
     orm_calls w @ (if ToBoolean rt (vid ident) then [FindUnique [(''id'', vid ident)]] else [])
   \<and> orm_calls (snd (productService_getProductsByCatId rt vid w ident)) =
     orm_calls w @ (if ToBoolean rt (vid ident) then [FindMany [(''category_id'', vid ident)]]
                    else [])
   \<and> orm_calls (snd (productData_getProductById rt w v)) =
        orm_calls w @ [FindUnique [(''id'', v)]]
   \<and> orm_calls (snd (productData_getProductsByCatId rt w v)) =
        orm_calls w @ [FindMany [(''category_id'', v)]]
   \<and> (\<forall>s. validateId rt ident \<noteq> JString s)"
proof -
  have "orm_calls (snd (productData_getProductById rt w v)) =
      orm_calls w @ [FindUnique [(''id'', v)]]"
    by (simp add: productData_getProductById_def prisma_product_findUnique_def console_log_def
        Let_def split: option.splits)
  moreover have "orm_calls (snd (productData_getProductsByCatId rt w v)) =
        orm_calls w @ [FindMany [(''category_id'', v)]]"
    by (simp add: productData_getProductsByCatId_def prisma_product_findMany_def console_log_def
        Let_def split: option.splits)
  moreover have "\<forall>s. validateId rt ident \<noteq> JString s"
    by (simp add: validateId_def split: jsval.splits)
  ultimately show ?thesis
    using service_byid_calls [of rt vid w ident] service_bycat_calls [of rt vid w ident]
    by blast
qed

section \<open>A missing category identifier\<close>



section \<open>Not found and failed\<close>

text \<open>
  C7, as stated, fails: on an empty table \<open>getProductById(999)\<close> returns \<open>null\<close>, the
  answer of \<open>findUnique\<close>, and on a failing storage it returns \<open>undefined\<close>.
\<close>

theorem not_found_differs_from_failure:
  "fst (productData_getProductById decimal_runtime empty_world (JNumber (Dec 999 0))) = JNull
   \<and> fst (productData_getProductById decimal_runtime failing_world (JNumber (Dec 999 0))) =
       JUndefined
   \<and> fst (productData_getProductById decimal_runtime empty_world (JNumber (Dec 999 0)))
      \<noteq> fst (productData_getProductById decimal_runtime failing_world (JNumber (Dec 999 0)))"
  by (simp add: productData_getProductById_def prisma_product_findUnique_def empty_world_def
      failing_world_def console_log_def)

text \<open>
  C7, amended. When no row matches, \<open>getProductById\<close> returns \<open>null\<close> and logs nothing;
  when the storage fails it returns \<open>undefined\<close> and logs the error's message. Neither
  is an exception and both values are falsy, but they are two values.
\<close>

theorem not_found_and_failure:
  "(fault w = None \<and> find (row_matches rt [(''id'', ident)]) (table w) = None \<longrightarrow>
      productData_getProductById rt w ident =
        (JNull, w\<lparr>orm_calls := orm_calls w @ [FindUnique [(''id'', ident)]]\<rparr>))
   \<and> (fault w = Some e \<longrightarrow>
      productData_getProductById rt w ident =
        (JUndefined, w\<lparr>orm_calls := orm_calls w @ [FindUnique [(''id'', ident)]],
           console := console w @ [[''DB Error - get product by id: '', message e]]\<rparr>))
   \<and> \<not> ToBoolean rt JNull \<and> \<not> ToBoolean rt JUndefined
   \<and> (JNull :: 'n jsval) \<noteq> JUndefined"
  by (simp add: productData_getProductById_def prisma_product_findUnique_def console_log_def
      ToBoolean_def)

theorem not_found_and_failure_witness:
  "productData_getProductById decimal_runtime empty_world (JNumber (Dec 999 0)) =
     (JNull, empty_world\<lparr>orm_calls := [FindUnique [(''id'', JNumber (Dec 999 0))]]\<rparr>)
   \<and> productData_getProductById decimal_runtime failing_world (JNumber (Dec 999 0)) =
     (JUndefined, failing_world\<lparr>orm_calls := [FindUnique [(''id'', JNumber (Dec 999 0))]],
        console := [[''DB Error - get product by id: '', ''Can not reach database server'']]\<rparr>)"
  using not_found_and_failure [of empty_world decimal_runtime "JNumber (Dec 999 0)"]
    not_found_and_failure [of failing_world decimal_runtime "JNumber (Dec 999 0)"
      "JsError ''Can not reach database server''"]
  by (simp add: empty_world_def failing_world_def)

section \<open>Creating a product\<close>

text \<open>
  C9, as stated, fails: when validation fails by an exception, on a \<open>null\<close> payload or
  on a payload without a \<open>product_name\<close>, \<open>addNewProduct\<close> does not return the string
  \<open>invalid product data\<close>. The exception leaves it, and \<open>POST /\<close> answers 500 with the
  error's message.
\<close>

theorem addNewProduct_throws:
  "fst (productService_addNewProduct decimal_runtime empty_world JNull) =
     Inl (TypeError (''Cannot read properties of null (reading ''
                     @ [CHR 0x27] @ ''category_id'' @ [CHR 0x27] @ '')''))
   \<and> fst (productService_addNewProduct decimal_runtime empty_world (JObject nameless_widget)) =
     Inl (TypeError ''Expected a string but received a undefined'')
   \<and> sent (fst (router_post_root decimal_runtime empty_world new_response
               (JObject nameless_widget))) =
     Some (500, Text ''Expected a string but received a undefined'')"
  by code_simp

text \<open>
  C9, amended. \<open>addNewProduct\<close> calls \<open>validateNewProduct\<close> on its argument. When that
  returns a product, the result is what \<open>createProduct\<close> returns for this product, in
  the state the validator left; when it returns \<open>undefined\<close>, the result is the string
  \<open>invalid product data\<close>, no ORM call is made and the table is unchanged; when it
  throws, the exception leaves \<open>addNewProduct\<close>, which has no \<open>try\<close>, again without
  an ORM call, and the handler's \<open>catch\<close> answers a fresh response with status 500 and
  the error's message.
\<close>

theorem addNewProduct_validates:
  "(validateNewProduct (rt :: 'n js_runtime) w productForm = (Inr (Some validatedProduct), w1)
      \<longrightarrow>
      productService_addNewProduct rt w productForm =
        (Inr (fst (productData_createProduct rt w1 validatedProduct)),
         snd (productData_createProduct rt w1 validatedProduct)))
   \<and> (validateNewProduct rt w productForm = (Inr None, w1) \<longrightarrow>
      productService_addNewProduct rt w productForm =
        (Inr (JString ''invalid product data''), w1)
      \<and> orm_calls w1 = orm_calls w \<and> table w1 = table w)
   \<and> (validateNewProduct rt w productForm = (Inl err, w1) \<longrightarrow>
      productService_addNewProduct rt w productForm = (Inl err, w1)
      \<and> orm_calls w1 = orm_calls w \<and> table w1 = table w
      \<and> json_or_500 (Inl err) (new_response :: 'n response) =
          (new_response\<lparr>statusCode := 500, sent := Some (500, Text (message err))\<rparr>, None))"
proof -
  have "json_or_500 (Inl err) (new_response :: 'n response) =
      (new_response\<lparr>statusCode := 500, sent := Some (500, Text (message err))\<rparr>, None)"
    by (simp add: json_or_500_def bind_err_def res_send_def res_status_def new_response_def)
  then show ?thesis
    using validateNewProduct_world [of rt w productForm "Inr None" w1]
      validateNewProduct_world [of rt w productForm "Inl err" w1]
    by (auto simp: productService_addNewProduct_def split: prod.splits)
qed

lemma createProduct_ok:
  "fault w = None \<Longrightarrow>
   productData_createProduct rt w product =
     (JObject ((''id'', JNumber (fromInt rt (next_id w))) # product_data product),
      w\<lparr>orm_calls := orm_calls w @ [Create (product_data product)],
        table := table w @ [(next_id w, product_data product)],
        next_id := next_id w + 1\<rparr>)"
  by (simp add: productData_createProduct_def prisma_product_create_def Number_def bind_err_def
      product_data_def row_object_def)

lemma blank_widget_invalid:
  "validateNewProduct decimal_runtime w (JObject blank_widget) =
     (Inr None, console_log [''validateNewProduct(): Validation failed''] w)"
  using validateNewProduct_checks(2) [of "JObject blank_widget" decimal_runtime w]
    checks_false [of decimal_runtime "JObject blank_widget"] blank_widget_false
  by simp

lemma null_throws:
  "validateNewProduct decimal_runtime empty_world JNull =
     (Inl (TypeError (''Cannot read properties of null (reading ''
                      @ [CHR 0x27] @ ''category_id'' @ [CHR 0x27] @ '')'')),
      console_log [''validateNewProduct(): Parameter is null''] empty_world)"
  by (simp add: validateNewProduct_def get_prop_def bind_err_def andalso_def)

theorem addNewProduct_validates_witness:
  "productService_addNewProduct decimal_runtime empty_world (JObject widget) =
     (Inr (JObject ((''id'', JNumber (Dec 1 0)) # product_data widget_product)),
      empty_world\<lparr>orm_calls := [Create (product_data widget_product)],
        table := [(1, product_data widget_product)], next_id := 2\<rparr>)
   \<and> productService_addNewProduct decimal_runtime empty_world (JObject blank_widget) =
     (Inr (JString ''invalid product data''),
      empty_world\<lparr>console := [[''validateNewProduct(): Validation failed'']]\<rparr>)
   \<and> productService_addNewProduct decimal_runtime empty_world JNull =
     (Inl (TypeError (''Cannot read properties of null (reading ''
                      @ [CHR 0x27] @ ''category_id'' @ [CHR 0x27] @ '')'')),
      empty_world\<lparr>console := [[''validateNewProduct(): Parameter is null'']]\<rparr>)"
proof -
  have f: "fault empty_world = None"
    by (simp add: empty_world_def)
  have c: "productData_createProduct decimal_runtime empty_world widget_product =
     (JObject ((''id'', JNumber (Dec 1 0)) # product_data widget_product),
      empty_world\<lparr>orm_calls := [Create (product_data widget_product)],
        table := [(1, product_data widget_product)], next_id := 2\<rparr>)"
    using createProduct_ok [OF f, of decimal_runtime widget_product]
    by (simp add: empty_world_def decimal_runtime_def)
  have l: "console_log [''validateNewProduct(): Validation failed''] empty_world =
      empty_world\<lparr>console := [[''validateNewProduct(): Validation failed'']]\<rparr>"
    "console_log [''validateNewProduct(): Parameter is null''] empty_world =
      empty_world\<lparr>console := [[''validateNewProduct(): Parameter is null'']]\<rparr>"
    by (simp_all add: console_log_def empty_world_def)
  show ?thesis
    using addNewProduct_validates [of decimal_runtime empty_world "JObject widget"
        widget_product empty_world]
      addNewProduct_validates [of decimal_runtime empty_world "JObject blank_widget"
        widget_product "console_log [''validateNewProduct(): Validation failed''] empty_world"]
      addNewProduct_validates [of decimal_runtime empty_world JNull widget_product
        "console_log [''validateNewProduct(): Parameter is null''] empty_world"
        "TypeError (''Cannot read properties of null (reading ''
                      @ [CHR 0x27] @ ''category_id'' @ [CHR 0x27] @ '')'')"]
    by (simp add: widget_valid blank_widget_invalid null_throws c l)
qed

lemma createProduct_ignores_id:
  "productData_createProduct rt w (product\<lparr>id' := x\<rparr>) = productData_createProduct rt w product"
  by (simp add: productData_createProduct_def)

lemma storage_ok_fresh: "storage_ok w \<Longrightarrow> next_id w \<notin> fst ` set (table w)"
  by (auto simp: storage_ok_def list_all_iff)

text \<open>
  C6. When the storage does not fail, \<open>createProduct\<close> passes to the ORM a data object
  with exactly the five validated fields and no \<open>id\<close>; the \<open>id\<close> of the product it is
  given has no influence on anything it does. It returns the stored row, which is
  that data under the key the storage assigned. On a storage that keeps its
  invariant that key is positive and was in no row before, the invariant is kept,
  and every row of the table has a positive key afterwards.
\<close>

theorem createProduct_assigns_id:
  assumes f: "fault w = None" and ok: "storage_ok w"
  shows "productData_createProduct rt w product =
           (JObject ((''id'', JNumber (fromInt rt (next_id w))) # product_data product),
            w\<lparr>orm_calls := orm_calls w @ [Create (product_data product)],
              table := table w @ [(next_id w, product_data product)],
              next_id := next_id w + 1\<rparr>)
       \<and> map fst (product_data product) =
           [''category_id'', ''product_name'', ''product_description'', ''product_stock'',
            ''product_price'']
       \<and> productData_createProduct rt w (product\<lparr>id' := x\<rparr>) =
           productData_createProduct rt w product
       \<and> 0 < next_id w \<and> next_id w \<notin> fst ` set (table w)
       \<and> storage_ok (snd (productData_createProduct rt w product))
       \<and> list_all (\<lambda>r. 0 < fst r) (table (snd (productData_createProduct rt w product)))"
proof -
  have ok': "storage_ok (snd (productData_createProduct rt w product))"
    using ok by (auto simp: createProduct_ok [OF f] storage_ok_def list_all_iff)
  have pos: "list_all (\<lambda>r. 0 < fst r) (table (snd (productData_createProduct rt w product)))"
    using ok' by (auto simp: storage_ok_def list_all_iff)
  show ?thesis
    using createProduct_ok [OF f, of rt product]
      createProduct_ignores_id [where rt = rt and w = w and product = product and x = x]
      storage_ok_fresh [OF ok] ok ok' pos
    by (simp add: product_data_def storage_ok_def)
qed

theorem createProduct_assigns_id_witness:
  "fault empty_world = None \<and> storage_ok empty_world
   \<and> productData_createProduct decimal_runtime empty_world (widget_product\<lparr>id' := Dec 77 0\<rparr>) =
       (JObject ((''id'', JNumber (Dec 1 0)) # product_data widget_product),
        empty_world\<lparr>orm_calls := [Create (product_data widget_product)],
          table := [(1, product_data widget_product)], next_id := 2\<rparr>)"
proof -
  have f: "fault empty_world = None"
    by (simp add: empty_world_def)
  have ok: "storage_ok empty_world"
    by (simp add: storage_ok_def empty_world_def)
  show ?thesis
    using createProduct_assigns_id [OF f ok, of decimal_runtime widget_product "Dec 77 0"] f ok
    by (simp add: empty_world_def decimal_runtime_def)
qed

section \<open>Identifiers\<close>

lemma nat_of_digits_snoc: "nat_of_digits (xs @ [c]) = 10 * nat_of_digits xs + digit_value c"
  by (simp add: nat_of_digits_def)

lemma digit_cases: "d < 10 \<Longrightarrow> d \<in> {0, 1, 2, 3, 4, 5, 6, 7, 8, 9::nat}"
  by auto

lemma digit_char_props:
  assumes "d < 10"
  shows "is_digit (digit_char d)" and "digit_value (digit_char d) = d"
  using digit_cases [OF assms]
  by (auto simp: digit_char_def is_digit_def digit_value_def)

lemma show_nat_digits: "list_all is_digit (show_nat n) \<and> show_nat n \<noteq> []"
proof (induction n rule: show_nat.induct)
  case (1 n)
  show ?case
  proof (cases "n < 10")
    case True
    then show ?thesis by (simp add: digit_char_props show_nat.simps [of n])
  next
    case False
    with 1 show ?thesis
      by (subst show_nat.simps, subst (2) show_nat.simps) (simp add: digit_char_props)
  qed
qed

lemma nat_of_digits_show_nat: "nat_of_digits (show_nat n) = n"
proof (induction n rule: show_nat.induct)
  case (1 n)
  show ?case
  proof (cases "n < 10")
    case True
    then show ?thesis
      by (simp add: nat_of_digits_def digit_char_props show_nat.simps [of n])
  next
    case False
    with 1 have "nat_of_digits (show_nat (n div 10)) = n div 10" by simp
    with False show ?thesis
      by (subst show_nat.simps) (simp add: nat_of_digits_snoc digit_char_props)
  qed
qed

lemma not_numeric_minus: "\<not> numeric_no_symbols (CHR ''-'' # s)"
  by (simp add: numeric_no_symbols_def is_digit_def)

lemma not_digit_dot: "\<not> is_digit CHR ''.''"
  by (simp add: is_digit_def)

lemma not_numeric_dot: "CHR ''.'' \<in> set s \<Longrightarrow> \<not> numeric_no_symbols s"
  using not_digit_dot by (auto simp: numeric_no_symbols_def list_all_iff)

lemma validateId_reject:
  "\<not> numeric_no_symbols s \<Longrightarrow> validateId rt (JString s) = JBool False"
  by (simp add: validateId_def)

lemma validateId_zero: "nat_of_digits s = 0 \<Longrightarrow> validateId rt (JString s) = JBool False"
  by (simp add: validateId_def)

lemma validateId_accept:
  "numeric_no_symbols s \<Longrightarrow> 0 < nat_of_digits s \<Longrightarrow>
   validateId rt (JString s) = JNumber (fromInt rt (int (nat_of_digits s)))"
  by (simp add: validateId_def)

lemma validateId_show_nat:
  "0 < k \<Longrightarrow> validateId rt (JString (show_nat k)) = JNumber (fromInt rt (int k))"
  using show_nat_digits [of k] validateId_accept [of "show_nat k" rt]
  by (simp add: numeric_no_symbols_def nat_of_digits_show_nat)

text \<open>
  C8. On the decimal numeral of a positive integer \<open>k\<close>, and on every digit string
  whose value is positive, \<open>validateId\<close> returns that integer as a number. On a string
  that is not a digit string, which a non-numeric, a negative and a fractional input
  are, and on a digit string of value zero it returns \<open>false\<close>, which is falsy.
\<close>

theorem validateId_positive_integers:
  "(0 < k \<longrightarrow> validateId rt (JString (show_nat k)) = JNumber (fromInt rt (int k)))
   \<and> (numeric_no_symbols s \<and> 0 < nat_of_digits s \<longrightarrow>
        validateId rt (JString s) = JNumber (fromInt rt (int (nat_of_digits s))))
   \<and> (\<not> numeric_no_symbols s \<longrightarrow> validateId rt (JString s) = JBool False)
   \<and> (nat_of_digits s = 0 \<longrightarrow> validateId rt (JString s) = JBool False)
   \<and> validateId rt (JString (CHR ''-'' # s)) = JBool False
   \<and> (CHR ''.'' \<in> set s \<longrightarrow> validateId rt (JString s) = JBool False)
   \<and> \<not> ToBoolean rt (JBool False)"
proof -
  have "\<not> ToBoolean rt (JBool False)"
    by (simp add: ToBoolean_def)
  then show ?thesis
    using validateId_show_nat [of k rt] validateId_accept [of s rt] validateId_reject [of s rt]
      validateId_zero [of s rt] validateId_reject [OF not_numeric_minus, of rt s]
      not_numeric_dot [of s]
    by blast
qed

theorem validateId_positive_integers_witness:
  "validateId decimal_runtime (JString ''42'') = JNumber (Dec 42 0)
   \<and> validateId decimal_runtime (JString ''007'') = JNumber (Dec 7 0)
   \<and> validateId decimal_runtime (JString ''abc'') = JBool False
   \<and> validateId decimal_runtime (JString ''0'') = JBool False
   \<and> validateId decimal_runtime (JString ''-5'') = JBool False
   \<and> validateId decimal_runtime (JString ''1.5'') = JBool False"
proof -
  have s: "show_nat 42 = ''42''"
    by code_simp
  have n: "numeric_no_symbols ''007''" "nat_of_digits ''007'' = 7"
    "\<not> numeric_no_symbols ''abc''" "nat_of_digits ''0'' = 0"
    by code_simp+
  show ?thesis
    using validateId_positive_integers [of 42 decimal_runtime "''007''"]
      validateId_positive_integers [of 42 decimal_runtime "''abc''"]
      validateId_positive_integers [of 42 decimal_runtime "''0''"]
      validateId_positive_integers [of 42 decimal_runtime "''5''"]
      validateId_positive_integers [of 42 decimal_runtime "''1.5''"] s n
    by (simp add: decimal_runtime_def)
qed

end
